theory Spec2Isabelle
  imports
    Complex_Main
    "HOL-Library.Multiset"
    "HOL-Library.Sublist"
    "HOL-Library.Char_ord"
    "HOL-Library.List_Lexorder"
begin

section \<open>The Instacart dashboard pipeline (streamlit\_app/app.py)\<close>

text \<open>
  The script loads four tables, merges them, filters the merged table by the sidebar
  selection and computes metrics and chart aggregates. A DataFrame is a list of rows
  (row order and duplicate rows are kept), a Series with an index is a list of
  (label, value) pairs. The library operations the script calls (\<open>merge\<close>,
  boolean indexing, \<open>between\<close>, \<open>unique\<close>, \<open>nunique\<close>, \<open>groupby\<close>,
  \<open>value_counts\<close>, \<open>idxmax\<close>, \<open>head\<close>, \<open>mean\<close>, \<open>sort_values\<close>) are written
  out as list functions following their documented behaviour.
\<close>

subsection \<open>Data model\<close>

text \<open>The four loaded tables, with the columns the pipeline reads.\<close>

record order_product_rec =
  op_order_id :: int
  op_product_id :: int
  op_reordered :: int

record product_rec =
  p_product_id :: int
  p_product_name :: string
  p_department_id :: int

record order_rec =
  o_order_id :: int
  o_order_hour_of_day :: int
  o_order_dow :: int

record department_rec =
  d_department_id :: int
  d_department :: string

text \<open>A row of \<open>merged\<close>: the columns of the four tables, each key column once.\<close>

record merged_row =
  order_id :: int
  product_id :: int
  reordered :: int
  product_name :: string
  department_id :: int
  order_hour_of_day :: int
  order_dow :: int
  department :: string

text \<open>
  A float result: \<open>mean\<close> of an empty Series is NaN, not an exception.
  \<open>idxmax\<close> of an empty Series raises \<open>ValueError\<close>.
\<close>

datatype pyfloat = NaN | Float real

datatype error = ValueError

subsection \<open>Library operations\<close>

text \<open>
  \<open>left.merge(right, on=key)\<close>: the inner equality join on one column. Every left row
  is paired with every right row of the same key; left rows keep their order. A row of
  the result carries the columns of both rows, here as a pair.
\<close>

definition merge_on :: "'a list \<Rightarrow> 'b list \<Rightarrow> ('a \<Rightarrow> 'k) \<Rightarrow> ('b \<Rightarrow> 'k) \<Rightarrow> ('a \<times> 'b) list" where
  "merge_on left right kl kr =
     concat (map (\<lambda>l. map (Pair l) (filter (\<lambda>r. kr r = kl l) right)) left)"

text \<open>\<open>s.between(lo, hi)\<close>, with the default \<open>inclusive="both"\<close>.\<close>

definition between :: "int list \<Rightarrow> int \<Rightarrow> int \<Rightarrow> bool list" where
  "between s lo hi = map (\<lambda>x. lo \<le> x \<and> x \<le> hi) s"

text \<open>\<open>df[mask]\<close>: the rows whose mask entry is True, in order.\<close>

definition boolean_index :: "'a list \<Rightarrow> bool list \<Rightarrow> 'a list" where
  "boolean_index df flags = map fst (filter snd (zip df flags))"

text \<open>\<open>s.unique()\<close>: the distinct values in order of first appearance.\<close>

definition unique :: "'a list \<Rightarrow> 'a list" where
  "unique s = rev (remdups (rev s))"

text \<open>\<open>s.nunique()\<close>: the number of distinct values.\<close>

definition nunique :: "'a list \<Rightarrow> nat" where
  "nunique s = length (unique s)"

text \<open>
  \<open>df.groupby(key)[col]\<close>: one group per distinct key, keys sorted ascending
  (\<open>sort=True\<close> is the default), each with the \<open>col\<close> values of its rows in order.
\<close>

definition groupby :: "('k::linorder \<times> 'v) list \<Rightarrow> ('k \<times> 'v list) list" where
  "groupby kvs =
     map (\<lambda>k. (k, map snd (filter (\<lambda>kv. fst kv = k) kvs))) (sort (unique (map fst kvs)))"

definition count_agg :: "('k \<times> 'v list) list \<Rightarrow> ('k \<times> nat) list" where
  "count_agg groups = map (\<lambda>(k, vs). (k, length vs)) groups"

definition mean :: "real list \<Rightarrow> pyfloat" where
  "mean xs = (if xs = [] then NaN else Float (sum_list xs / real (length xs)))"

definition mean_agg :: "('k \<times> int list) list \<Rightarrow> ('k \<times> pyfloat) list" where
  "mean_agg groups = map (\<lambda>(k, vs). (k, mean (map real_of_int vs))) groups"

text \<open>
  \<open>s.value_counts()\<close>: the count of every distinct value, sorted by count descending;
  values of equal count stay in order of first appearance.
\<close>

definition value_counts :: "'a list \<Rightarrow> ('a \<times> nat) list" where
  "value_counts s =
     sort_key (\<lambda>(k, c). - int c) (map (\<lambda>k. (k, count_list s k)) (unique s))"

text \<open>
  \<open>s.idxmax()\<close>: the label of the first occurrence of the maximum; raises
  \<open>ValueError\<close> on an empty Series.
\<close>

fun argmax_from :: "('k \<times> 'v::linorder) \<Rightarrow> ('k \<times> 'v) list \<Rightarrow> 'k" where
  "argmax_from best [] = fst best"
| "argmax_from best (kv # rest) =
     (if snd best < snd kv then argmax_from kv rest else argmax_from best rest)"

fun idxmax :: "('k \<times> 'v::linorder) list \<Rightarrow> error + 'k" where
  "idxmax [] = Inl ValueError"
| "idxmax (kv # rest) = Inr (argmax_from kv rest)"

text \<open>\<open>s.head(n)\<close>: the first \<open>n\<close> entries; for negative \<open>n\<close> all but the last \<open>-n\<close>.\<close>

definition head :: "int \<Rightarrow> 'a list \<Rightarrow> 'a list" where
  "head n s = (if 0 \<le> n then take (nat n) s else take (length s - nat (- n)) s)"

text \<open>
  \<open>s.sort_values(ascending=False)\<close> on a float Series: values descending, NaN entries
  last (\<open>na_position="last"\<close>).
\<close>

fun float_key :: "pyfloat \<Rightarrow> real" where
  "float_key NaN = 0"
| "float_key (Float x) = - x"

definition sort_values_desc :: "('k \<times> pyfloat) list \<Rightarrow> ('k \<times> pyfloat) list" where
  "sort_values_desc s =
     sort_key (\<lambda>kv. float_key (snd kv)) (filter (\<lambda>kv. snd kv \<noteq> NaN) s)
     @ filter (\<lambda>kv. snd kv = NaN) s"

subsection \<open>The pipeline\<close>

text \<open>The columns of the four joined rows as one row of \<open>merged\<close>.\<close>

definition mk_row :: "order_product_rec \<Rightarrow> product_rec \<Rightarrow> order_rec \<Rightarrow> department_rec \<Rightarrow> merged_row" where
  "mk_row opr pr orw dr =
     \<lparr> order_id = op_order_id opr, product_id = op_product_id opr,
       reordered = op_reordered opr, product_name = p_product_name pr,
       department_id = p_department_id pr,
       order_hour_of_day = o_order_hour_of_day orw, order_dow = o_order_dow orw,
       department = d_department dr \<rparr>"

text \<open>
  \<open>prepare_merged\<close>: order\_products with products on \<open>product_id\<close>, then with orders
  on \<open>order_id\<close>, then with departments on \<open>department_id\<close>.
\<close>

definition prepare_merged ::
  "product_rec list \<Rightarrow> order_rec list \<Rightarrow> order_product_rec list \<Rightarrow> department_rec list
   \<Rightarrow> merged_row list" where
  "prepare_merged products orders order_products departments =
     (let merged1 = merge_on order_products products op_product_id p_product_id;
          merged2 = merge_on merged1 orders (\<lambda>(opr, pr). op_order_id opr) o_order_id;
          merged3 = merge_on merged2 departments (\<lambda>((opr, pr), orw). p_department_id pr)
                      d_department_id
      in map (\<lambda>(((opr, pr), orw), dr). mk_row opr pr orw dr) merged3)"

text \<open>\<open>dept_options = merged["department"].unique()\<close>\<close>

definition dept_options :: "merged_row list \<Rightarrow> string list" where
  "dept_options merged = unique (map department merged)"

text \<open>
  \<open>filter_data\<close>: the department mask and the hour mask are computed column-wise,
  combined element-wise with \<open>&\<close>, and used to index the table.
\<close>

definition filter_data :: "merged_row list \<Rightarrow> string \<Rightarrow> int \<times> int \<Rightarrow> merged_row list" where
  "filter_data merged selected_dept hour_range =
     boolean_index merged
       (map2 (\<and>) (map (\<lambda>d. d = selected_dept) (map department merged))
                  (between (map order_hour_of_day merged) (fst hour_range) (snd hour_range)))"

text \<open>The metrics row (lines 65 to 67 of the script).\<close>

definition total_orders :: "merged_row list \<Rightarrow> nat" where
  "total_orders filtered_df = nunique (map order_id filtered_df)"

definition basket_sizes :: "merged_row list \<Rightarrow> (int \<times> nat) list" where
  "basket_sizes filtered_df =
     count_agg (groupby (map (\<lambda>r. (order_id r, product_id r)) filtered_df))"

definition avg_basket_size :: "merged_row list \<Rightarrow> pyfloat" where
  "avg_basket_size filtered_df = mean (map (\<lambda>kc. real (snd kc)) (basket_sizes filtered_df))"

definition reordered_names :: "merged_row list \<Rightarrow> string list" where
  "reordered_names filtered_df =
     map product_name (boolean_index filtered_df (map (\<lambda>x. x = 1) (map reordered filtered_df)))"

definition top_product :: "merged_row list \<Rightarrow> error + string" where
  "top_product filtered_df = idxmax (value_counts (reordered_names filtered_df))"

text \<open>Tab 1: the \<open>top_n\<close> most reordered products.\<close>

definition top_products :: "merged_row list \<Rightarrow> int \<Rightarrow> (string \<times> nat) list" where
  "top_products filtered_df top_n = head top_n (value_counts (reordered_names filtered_df))"

text \<open>Tab 5: the mean of \<open>reordered\<close> by department, sorted descending.\<close>

definition reorder_ratio :: "merged_row list \<Rightarrow> (string \<times> pyfloat) list" where
  "reorder_ratio df =
     sort_values_desc (mean_agg (groupby (map (\<lambda>r. (department r, reordered r)) df)))"

text \<open>
  One run of the script from the filter on. The script is straight-line code: an
  exception at line 67 ends the run before any tab is drawn.
\<close>

record page =
  pg_total_orders :: nat
  pg_avg_basket_size :: pyfloat
  pg_top_product :: string
  pg_top_products :: "(string \<times> nat) list"
  pg_reorder_ratio :: "(string \<times> pyfloat) list"

definition run_page :: "merged_row list \<Rightarrow> int \<Rightarrow> string \<Rightarrow> int \<times> int \<Rightarrow> error + page" where
  "run_page merged top_n selected_dept hour_range =
     (let filtered_df = filter_data merged selected_dept hour_range;
          total = total_orders filtered_df;
          avg = avg_basket_size filtered_df
      in case top_product filtered_df of
           Inl e \<Rightarrow> Inl e
         | Inr name \<Rightarrow>
             Inr \<lparr> pg_total_orders = total, pg_avg_basket_size = avg, pg_top_product = name,
                   pg_top_products = top_products filtered_df top_n,
                   pg_reorder_ratio = reorder_ratio filtered_df \<rparr>)"

text \<open>
  The department selectbox offers \<open>sorted(dept_options)\<close>; the selection is one of
  its entries.
\<close>

definition dept_choices :: "merged_row list \<Rightarrow> string list" where
  "dept_choices merged = sort (dept_options merged)"

subsection \<open>Specification-side notions\<close>

text \<open>
  How often a product name occurs among the rows with \<open>reordered == 1\<close>: the frequency
  the top-product metric is specified by.
\<close>

definition reorder_count :: "merged_row list \<Rightarrow> string \<Rightarrow> nat" where
  "reorder_count df name =
     length (filter (\<lambda>r. reordered r = 1 \<and> product_name r = name) df)"

text \<open>
  Full referential integrity as the join-cardinality property spells it out: every
  \<open>product_id\<close> and \<open>order_id\<close> of order\_products occurs in products and orders, and
  the \<open>department_id\<close> of every referenced product occurs in departments.
\<close>

definition referential_integrity ::
  "product_rec list \<Rightarrow> order_rec list \<Rightarrow> order_product_rec list \<Rightarrow> department_rec list
   \<Rightarrow> bool" where
  "referential_integrity products orders order_products departments \<longleftrightarrow>
     (\<forall>x \<in> set order_products.
        op_product_id x \<in> p_product_id ` set products
        \<and> op_order_id x \<in> o_order_id ` set orders)
     \<and> (\<forall>x \<in> set order_products. \<forall>y \<in> set products.
          p_product_id y = op_product_id x
          \<longrightarrow> p_department_id y \<in> d_department_id ` set departments)"

text \<open>
  The other orders in which the three joins can be applied. The department join needs
  the \<open>department_id\<close> column, which only the products table brings, so departments are
  joined either after products or to the products table itself.
\<close>

definition merged_P_D_O ::
  "product_rec list \<Rightarrow> order_rec list \<Rightarrow> order_product_rec list \<Rightarrow> department_rec list
   \<Rightarrow> merged_row list" where
  "merged_P_D_O products orders order_products departments =
     (let m1 = merge_on order_products products op_product_id p_product_id;
          m2 = merge_on m1 departments (\<lambda>(opr, pr). p_department_id pr) d_department_id;
          m3 = merge_on m2 orders (\<lambda>((opr, pr), dr). op_order_id opr) o_order_id
      in map (\<lambda>(((opr, pr), dr), orw). mk_row opr pr orw dr) m3)"

definition merged_O_P_D ::
  "product_rec list \<Rightarrow> order_rec list \<Rightarrow> order_product_rec list \<Rightarrow> department_rec list
   \<Rightarrow> merged_row list" where
  "merged_O_P_D products orders order_products departments =
     (let m1 = merge_on order_products orders op_order_id o_order_id;
          m2 = merge_on m1 products (\<lambda>(opr, orw). op_product_id opr) p_product_id;
          m3 = merge_on m2 departments (\<lambda>((opr, orw), pr). p_department_id pr)
                 d_department_id
      in map (\<lambda>(((opr, orw), pr), dr). mk_row opr pr orw dr) m3)"

definition merged_D_P_O ::
  "product_rec list \<Rightarrow> order_rec list \<Rightarrow> order_product_rec list \<Rightarrow> department_rec list
   \<Rightarrow> merged_row list" where
  "merged_D_P_O products orders order_products departments =
     (let pd = merge_on products departments p_department_id d_department_id;
          m2 = merge_on order_products pd op_product_id (\<lambda>(pr, dr). p_product_id pr);
          m3 = merge_on m2 orders (\<lambda>(opr, (pr, dr)). op_order_id opr) o_order_id
      in map (\<lambda>((opr, (pr, dr)), orw). mk_row opr pr orw dr) m3)"

definition merged_O_D_P ::
  "product_rec list \<Rightarrow> order_rec list \<Rightarrow> order_product_rec list \<Rightarrow> department_rec list
   \<Rightarrow> merged_row list" where
  "merged_O_D_P products orders order_products departments =
     (let m1 = merge_on order_products orders op_order_id o_order_id;
          pd = merge_on products departments p_department_id d_department_id;
          m3 = merge_on m1 pd (\<lambda>(opr, orw). op_product_id opr) (\<lambda>(pr, dr). p_product_id pr)
      in map (\<lambda>((opr, orw), (pr, dr)). mk_row opr pr orw dr) m3)"

subsection \<open>The example tables\<close>

text \<open>
  The fixture of the end-to-end example. The example leaves \<open>order_dow\<close> open; it is a
  parameter here.
\<close>

definition ex_order_products :: "order_product_rec list" where
  "ex_order_products =
     [\<lparr>op_order_id = 1, op_product_id = 10, op_reordered = 1\<rparr>,
      \<lparr>op_order_id = 1, op_product_id = 11, op_reordered = 0\<rparr>,
      \<lparr>op_order_id = 2, op_product_id = 10, op_reordered = 1\<rparr>]"

definition ex_products :: "product_rec list" where
  "ex_products =
     [\<lparr>p_product_id = 10, p_product_name = ''Bananas'', p_department_id = 1\<rparr>,
      \<lparr>p_product_id = 11, p_product_name = ''Milk'', p_department_id = 2\<rparr>]"

definition ex_departments :: "department_rec list" where
  "ex_departments =
     [\<lparr>d_department_id = 1, d_department = ''produce''\<rparr>,
      \<lparr>d_department_id = 2, d_department = ''dairy''\<rparr>]"

definition ex_orders :: "int \<Rightarrow> int \<Rightarrow> order_rec list" where
  "ex_orders dow1 dow2 =
     [\<lparr>o_order_id = 1, o_order_hour_of_day = 9, o_order_dow = dow1\<rparr>,
      \<lparr>o_order_id = 2, o_order_hour_of_day = 15, o_order_dow = dow2\<rparr>]"

definition ex_merged :: "int \<Rightarrow> int \<Rightarrow> merged_row list" where
  "ex_merged dow1 dow2 =
     prepare_merged ex_products (ex_orders dow1 dow2) ex_order_products ex_departments"

text \<open>
  The example tables with one more row each, repeating a key that is already there:
  a second product 10, a second order 1, a second department 1.
\<close>

definition dup_products :: "product_rec list" where
  "dup_products =
     ex_products
     @ [\<lparr>p_product_id = 10, p_product_name = ''Organic Bananas'', p_department_id = 1\<rparr>]"

definition dup_orders :: "order_rec list" where
  "dup_orders =
     ex_orders 0 0 @ [\<lparr>o_order_id = 1, o_order_hour_of_day = 10, o_order_dow = 3\<rparr>]"

definition dup_departments :: "department_rec list" where
  "dup_departments =
     ex_departments @ [\<lparr>d_department_id = 1, d_department = ''fruit''\<rparr>]"

text \<open>A subset with seven reordered product names, one of them twice.\<close>

definition ex_reordered_row :: "int \<Rightarrow> string \<Rightarrow> merged_row" where
  "ex_reordered_row i name =
     \<lparr>order_id = i, product_id = i, reordered = 1, product_name = name, department_id = 1,
      order_hour_of_day = 9, order_dow = 0, department = ''produce''\<rparr>"

definition ex_seven_products :: "merged_row list" where
  "ex_seven_products =
     [ex_reordered_row 1 ''a'', ex_reordered_row 2 ''b'', ex_reordered_row 3 ''c'',
      ex_reordered_row 4 ''b'', ex_reordered_row 5 ''d'', ex_reordered_row 6 ''e'',
      ex_reordered_row 7 ''f'', ex_reordered_row 8 ''g'']"

section \<open>The filter stage\<close>

lemma boolean_index_map:
  "boolean_index df (map P df) = filter P df"
  by (induction df) (simp_all add: boolean_index_def)

lemma filter_data_eq_filter:
  "filter_data merged selected_dept hour_range =
     filter (\<lambda>r. department r = selected_dept
                \<and> fst hour_range \<le> order_hour_of_day r \<and> order_hour_of_day r \<le> snd hour_range)
       merged"
proof -
  have "map2 (\<and>) (map (\<lambda>d. d = selected_dept) (map department merged))
          (between (map order_hour_of_day merged) (fst hour_range) (snd hour_range))
        = map (\<lambda>r. department r = selected_dept
                \<and> fst hour_range \<le> order_hour_of_day r \<and> order_hour_of_day r \<le> snd hour_range)
            merged"
    by (induction merged) (simp_all add: between_def)
  then show ?thesis
    by (simp add: filter_data_def boolean_index_map)
qed

lemma ex_merged_rows:
  "ex_merged dow1 dow2 =
     [\<lparr>order_id = 1, product_id = 10, reordered = 1, product_name = ''Bananas'',
        department_id = 1, order_hour_of_day = 9, order_dow = dow1, department = ''produce''\<rparr>,
      \<lparr>order_id = 1, product_id = 11, reordered = 0, product_name = ''Milk'',
        department_id = 2, order_hour_of_day = 9, order_dow = dow1, department = ''dairy''\<rparr>,
      \<lparr>order_id = 2, product_id = 10, reordered = 1, product_name = ''Bananas'',
        department_id = 1, order_hour_of_day = 15, order_dow = dow2, department = ''produce''\<rparr>]"
  by (simp add: ex_merged_def prepare_merged_def merge_on_def mk_row_def ex_products_def
      ex_orders_def ex_order_products_def ex_departments_def)

text \<open>
  Claim C4. For every selection, \<open>filter_data\<close> returns exactly the rows of the merged
  table whose department is the selected name and whose hour lies in \<open>[lo, hi]\<close>, in
  table order. Both ends are inclusive: a matching row at hour \<open>lo\<close> or \<open>hi\<close> is kept,
  a row at hour \<open>lo - 1\<close> or \<open>hi + 1\<close> is dropped. When no row matches, the result is
  the empty table; the function has no failure branch.
\<close>

theorem filter_data_exact:
  "filter_data merged name (lo, hi)
     = filter (\<lambda>r. department r = name \<and> lo \<le> order_hour_of_day r \<and> order_hour_of_day r \<le> hi)
         merged
   \<and> (r \<in> set merged \<and> department r = name \<and> lo \<le> hi
        \<and> (order_hour_of_day r = lo \<or> order_hour_of_day r = hi)
      \<longrightarrow> r \<in> set (filter_data merged name (lo, hi)))
   \<and> (order_hour_of_day r = lo - 1 \<or> order_hour_of_day r = hi + 1
      \<longrightarrow> r \<notin> set (filter_data merged name (lo, hi)))
   \<and> ((\<forall>x \<in> set merged. \<not> (department x = name \<and> lo \<le> order_hour_of_day x
                                 \<and> order_hour_of_day x \<le> hi))
      \<longrightarrow> filter_data merged name (lo, hi) = [])"
  by (auto simp add: filter_data_eq_filter filter_empty_conv)

theorem filter_data_exact_witness:
  "filter_data (ex_merged 0 0) ''produce'' (9, 15)
     = [\<lparr>order_id = 1, product_id = 10, reordered = 1, product_name = ''Bananas'',
          department_id = 1, order_hour_of_day = 9, order_dow = 0, department = ''produce''\<rparr>,
        \<lparr>order_id = 2, product_id = 10, reordered = 1, product_name = ''Bananas'',
          department_id = 1, order_hour_of_day = 15, order_dow = 0, department = ''produce''\<rparr>]
   \<and> filter_data (ex_merged 0 0) ''produce'' (10, 14) = []
   \<and> filter_data (ex_merged 0 0) ''produce'' (10, 15)
     = [\<lparr>order_id = 2, product_id = 10, reordered = 1, product_name = ''Bananas'',
          department_id = 1, order_hour_of_day = 15, order_dow = 0, department = ''produce''\<rparr>]"
  using filter_data_exact [of "ex_merged 0 0" "''produce''" 9 15]
    filter_data_exact [of "ex_merged 0 0" "''produce''" 10 14]
    filter_data_exact [of "ex_merged 0 0" "''produce''" 10 15]
  by (simp add: ex_merged_rows)

section \<open>The end-to-end example\<close>

text \<open>
  Claim C7. On the example tables, filtered to department \<open>produce\<close> and hours
  \<open>[0, 23]\<close>, the pipeline gives Total Orders 2, Average Basket Size 1.0 and Top
  Reordered Product \<open>Bananas\<close>, whatever the days of week of the two orders.
\<close>

theorem end_to_end_example:
  "total_orders (filter_data (ex_merged dow1 dow2) ''produce'' (0, 23)) = 2
   \<and> avg_basket_size (filter_data (ex_merged dow1 dow2) ''produce'' (0, 23)) = Float 1
   \<and> top_product (filter_data (ex_merged dow1 dow2) ''produce'' (0, 23)) = Inr ''Bananas''"
  by (simp add: ex_merged_rows filter_data_eq_filter total_orders_def nunique_def unique_def
      avg_basket_size_def basket_sizes_def count_agg_def groupby_def mean_def
      top_product_def reordered_names_def boolean_index_def value_counts_def)

section \<open>The department options\<close>

lemma set_unique: "set (unique s) = set s"
  by (simp add: unique_def)

lemma distinct_unique: "distinct (unique s)"
  by (simp add: unique_def)

text \<open>
  Claim C10. The selectable departments are exactly the distinct department names of
  the merged table. So, when every hour of the table lies in 0 to 23, a selectable
  department filtered with the full range \<open>[0, 23]\<close> gives a non-empty subset, and an
  empty subset for a selectable department means the hour range is not the full one.
\<close>

theorem dept_choices_nonempty_selection:
  "set (dept_choices merged) = department ` set merged
   \<and> distinct (dept_choices merged)
   \<and> (name \<in> set (dept_choices merged)
        \<and> (\<forall>r \<in> set merged. 0 \<le> order_hour_of_day r \<and> order_hour_of_day r \<le> 23)
      \<longrightarrow> filter_data merged name (0, 23) \<noteq> [])
   \<and> (name \<in> set (dept_choices merged)
        \<and> (\<forall>r \<in> set merged. 0 \<le> order_hour_of_day r \<and> order_hour_of_day r \<le> 23)
        \<and> filter_data merged name (lo, hi) = []
      \<longrightarrow> (lo, hi) \<noteq> (0, 23))"
  by (auto simp add: dept_choices_def dept_options_def set_unique distinct_unique
      filter_data_eq_filter filter_empty_conv)

theorem dept_choices_nonempty_selection_witness:
  "dept_choices (ex_merged 0 0) = [''dairy'', ''produce'']
   \<and> filter_data (ex_merged 0 0) ''dairy'' (0, 23) \<noteq> []
   \<and> filter_data (ex_merged 0 0) ''dairy'' (10, 23) = []"
  using dept_choices_nonempty_selection [of "ex_merged 0 0" "''dairy''" 10 23]
  by (simp add: ex_merged_rows dept_choices_def dept_options_def unique_def filter_data_eq_filter)

section \<open>Top-N reordered products\<close>

lemma head_prefix:
  assumes "0 \<le> k"
  shows "prefix (head k s) (head (k + 1) s)"
proof -
  have "take (nat k) s = take (nat k) (take (nat (k + 1)) s)"
    using assms by (simp add: min_def)
  then have "prefix (take (nat k) s) (take (nat (k + 1)) s)"
    by (metis take_is_prefix)
  then show ?thesis
    using assms by (simp add: head_def)
qed

text \<open>
  Claim C8. For every filtered subset and every \<open>k\<close> with \<open>5 \<le> k < 30\<close>, the top-\<open>k\<close>
  result is a prefix of the top-\<open>(k+1)\<close> result, so every product of the former is a
  product of the latter.
\<close>

theorem top_products_prefix:
  "5 \<le> k \<Longrightarrow> k < 30 \<Longrightarrow>
   prefix (top_products filtered_df k) (top_products filtered_df (k + 1))
   \<and> set (map fst (top_products filtered_df k))
       \<subseteq> set (map fst (top_products filtered_df (k + 1)))"
proof -
  assume "5 \<le> k" and "k < 30"
  then have p: "prefix (top_products filtered_df k) (top_products filtered_df (k + 1))"
    by (simp add: top_products_def head_prefix)
  then have "set (top_products filtered_df k) \<subseteq> set (top_products filtered_df (k + 1))"
    by (rule set_mono_prefix)
  with p show ?thesis
    by auto
qed

theorem top_products_prefix_witness:
  "top_products ex_seven_products 5
     = [(''b'', 2), (''a'', 1), (''c'', 1), (''d'', 1), (''e'', 1)]
   \<and> top_products ex_seven_products (5 + 1)
     = [(''b'', 2), (''a'', 1), (''c'', 1), (''d'', 1), (''e'', 1), (''f'', 1)]
   \<and> prefix (top_products ex_seven_products 5) (top_products ex_seven_products (5 + 1))"
  using top_products_prefix [of 5 ex_seven_products]
  by (simp add: ex_seven_products_def ex_reordered_row_def top_products_def head_def
      reordered_names_def boolean_index_def value_counts_def unique_def)

section \<open>Top reordered product\<close>

lemma argmax_from_max:
  "\<exists>v. (argmax_from best rest, v) \<in> set (best # rest)
       \<and> (\<forall>kv \<in> set (best # rest). snd kv \<le> v)"
proof (induction rest arbitrary: best)
  case Nil
  show ?case
    by (rule exI [of _ "snd best"]) simp
next
  case (Cons kv rest)
  show ?case
  proof (cases "snd best < snd kv")
    case True
    from Cons.IH [of kv] obtain v where
      v: "(argmax_from kv rest, v) \<in> set (kv # rest)" "\<forall>x \<in> set (kv # rest). snd x \<le> v"
      by blast
    then have "snd kv \<le> v" by simp
    with True have "snd best \<le> v" by simp
    with v True show ?thesis
      by (intro exI [of _ v]) auto
  next
    case False
    from Cons.IH [of best] obtain v where
      v: "(argmax_from best rest, v) \<in> set (best # rest)" "\<forall>x \<in> set (best # rest). snd x \<le> v"
      by blast
    then have "snd best \<le> v" by simp
    with False have "snd kv \<le> v" by simp
    with v False show ?thesis
      by (intro exI [of _ v]) auto
  qed
qed

lemma idxmax_max:
  assumes "s \<noteq> []"
  shows "\<exists>k v. idxmax s = Inr k \<and> (k, v) \<in> set s \<and> (\<forall>kv \<in> set s. snd kv \<le> v)"
proof -
  from assms obtain kv rest where s: "s = kv # rest"
    by (cases s) auto
  from argmax_from_max [of kv rest] show ?thesis
    unfolding s by auto
qed

lemma set_value_counts:
  "set (value_counts s) = (\<lambda>k. (k, count_list s k)) ` set s"
  by (simp add: value_counts_def set_unique)

lemma value_counts_Nil_iff: "value_counts s = [] \<longleftrightarrow> s = []"
proof -
  have "value_counts s = [] \<longleftrightarrow> set (value_counts s) = {}"
    by simp
  then show ?thesis
    by (simp add: set_value_counts)
qed

lemma reordered_names_eq:
  "reordered_names df = map product_name (filter (\<lambda>r. reordered r = 1) df)"
proof -
  have "map (\<lambda>x. x = 1) (map reordered df) = map (\<lambda>r. reordered r = 1) df"
    by simp
  then show ?thesis
    unfolding reordered_names_def by (simp only: boolean_index_map)
qed

lemma count_reordered_names:
  "count_list (reordered_names df) name = reorder_count df name"
proof -
  have "count_list (map product_name (filter (\<lambda>r. reordered r = 1) df)) name
        = length (filter (\<lambda>r. reordered r = 1 \<and> product_name r = name) df)"
    by (induction df) auto
  then show ?thesis
    by (simp add: reordered_names_eq reorder_count_def)
qed

text \<open>
  Claim C3. The top reordered product is a most frequent product name among the rows
  of the subset with \<open>reordered == 1\<close>: it occurs there, and no name occurs there more
  often. When no row of the subset has \<open>reordered == 1\<close>, the computation fails with
  the \<open>ValueError\<close> of \<open>idxmax\<close> on an empty Series and returns no product.
\<close>

theorem top_product_most_frequent:
  "((\<forall>r \<in> set filtered_df. reordered r \<noteq> 1) \<longrightarrow> top_product filtered_df = Inl ValueError)
   \<and> ((\<exists>r \<in> set filtered_df. reordered r = 1) \<longrightarrow>
        (\<exists>p. top_product filtered_df = Inr p
           \<and> (\<exists>r \<in> set filtered_df. reordered r = 1 \<and> product_name r = p)
           \<and> (\<forall>q. reorder_count filtered_df q \<le> reorder_count filtered_df p)))"
proof (intro conjI impI)
  assume "\<forall>r \<in> set filtered_df. reordered r \<noteq> 1"
  then have "filter (\<lambda>r. reordered r = 1) filtered_df = []"
    by (simp add: filter_empty_conv)
  then have "reordered_names filtered_df = []"
    by (simp add: reordered_names_eq)
  then have "value_counts (reordered_names filtered_df) = []"
    by (simp add: value_counts_Nil_iff)
  then show "top_product filtered_df = Inl ValueError"
    by (simp add: top_product_def)
next
  let ?names = "reordered_names filtered_df"
  assume "\<exists>r \<in> set filtered_df. reordered r = 1"
  then have "?names \<noteq> []"
    by (auto simp add: reordered_names_eq filter_empty_conv)
  then have "value_counts ?names \<noteq> []"
    by (simp add: value_counts_Nil_iff)
  from idxmax_max [OF this] obtain p v where
    top: "idxmax (value_counts ?names) = Inr p"
    and mem: "(p, v) \<in> set (value_counts ?names)"
    and mx: "\<forall>kv \<in> set (value_counts ?names). snd kv \<le> v"
    by blast
  from mem have p: "p \<in> set ?names" and v: "v = reorder_count filtered_df p"
    by (auto simp add: set_value_counts count_reordered_names)
  have "reorder_count filtered_df q \<le> reorder_count filtered_df p" for q
  proof (cases "q \<in> set ?names")
    case True
    then have "(q, count_list ?names q) \<in> set (value_counts ?names)"
      by (simp add: set_value_counts)
    with mx have "count_list ?names q \<le> v"
      by fastforce
    then show ?thesis
      by (simp add: v count_reordered_names)
  next
    case False
    then have "count_list ?names q = 0"
      by (simp add: count_list_0_iff)
    then show ?thesis
      by (simp add: count_reordered_names)
  qed
  moreover from p have "\<exists>r \<in> set filtered_df. reordered r = 1 \<and> product_name r = p"
    by (auto simp add: reordered_names_eq)
  ultimately show "\<exists>p. top_product filtered_df = Inr p
           \<and> (\<exists>r \<in> set filtered_df. reordered r = 1 \<and> product_name r = p)
           \<and> (\<forall>q. reorder_count filtered_df q \<le> reorder_count filtered_df p)"
    using top by (auto simp add: top_product_def)
qed

theorem top_product_most_frequent_witness:
  "top_product (ex_merged 0 0) = Inr ''Bananas''
   \<and> reorder_count (ex_merged 0 0) ''Milk'' \<le> reorder_count (ex_merged 0 0) ''Bananas''
   \<and> top_product (filter_data (ex_merged 0 0) ''dairy'' (0, 23)) = Inl ValueError"
  using top_product_most_frequent [of "ex_merged 0 0"]
    top_product_most_frequent [of "filter_data (ex_merged 0 0) ''dairy'' (0, 23)"]
  by (simp add: ex_merged_rows filter_data_eq_filter top_product_def reordered_names_def
      boolean_index_def value_counts_def unique_def reorder_count_def)

section \<open>Reorder ratio by department\<close>

lemma set_sort_values_desc: "set (sort_values_desc s) = set s"
  by (auto simp add: sort_values_desc_def)

lemma set_mean_agg_groupby:
  "set (mean_agg (groupby kvs))
     = (\<lambda>k. (k, mean (map real_of_int (map snd (filter (\<lambda>kv. fst kv = k) kvs)))))
         ` fst ` set kvs"
  by (auto simp add: mean_agg_def groupby_def set_unique image_iff)

lemma sum_list_flags_le:
  "\<forall>x \<in> set xs. x = 0 \<or> x = (1::int) \<Longrightarrow>
     0 \<le> sum_list (map real_of_int xs) \<and> sum_list (map real_of_int xs) \<le> real (length xs)"
  by (induction xs) auto

lemma mean_flags_bounds:
  assumes "xs \<noteq> []" and "\<forall>x \<in> set xs. x = 0 \<or> x = (1::int)"
  shows "\<exists>m. mean (map real_of_int xs) = Float m \<and> 0 \<le> m \<and> m \<le> 1"
proof -
  from assms(1) have len: "0 < real (length xs)"
    by simp
  from sum_list_flags_le [OF assms(2)]
  have "0 \<le> sum_list (map real_of_int xs) / real (length xs)"
    and "sum_list (map real_of_int xs) / real (length xs) \<le> 1"
    using len by (simp_all add: divide_le_eq)
  with assms(1) show ?thesis
    by (simp add: mean_def)
qed

text \<open>
  Claim C9. When the \<open>reordered\<close> flag of every row is 0 or 1, every entry of the
  reorder ratio by department is keyed by a department of the table and its value is a
  number (not NaN) in the closed interval \<open>[0, 1]\<close>.
\<close>

theorem reorder_ratio_bounds:
  assumes "\<forall>r \<in> set df. reordered r = 0 \<or> reordered r = 1"
    and "(dept, v) \<in> set (reorder_ratio df)"
  shows "dept \<in> department ` set df \<and> (\<exists>x. v = Float x \<and> 0 \<le> x \<and> x \<le> 1)"
proof -
  let ?kvs = "map (\<lambda>r. (department r, reordered r)) df"
  let ?grp = "map snd (filter (\<lambda>kv. fst kv = dept) ?kvs)"
  from assms(2) have "(dept, v) \<in> set (mean_agg (groupby ?kvs))"
    by (simp add: reorder_ratio_def set_sort_values_desc)
  then have k: "dept \<in> fst ` set ?kvs" and v: "v = mean (map real_of_int ?grp)"
    by (auto simp add: set_mean_agg_groupby)
  from k have dept: "dept \<in> department ` set df"
    by (auto simp add: image_iff)
  then have "?grp \<noteq> []"
    by (auto simp add: filter_empty_conv)
  moreover from assms(1) have "\<forall>x \<in> set ?grp. x = 0 \<or> x = 1"
    by auto
  ultimately have "\<exists>m. mean (map real_of_int ?grp) = Float m \<and> 0 \<le> m \<and> m \<le> 1"
    by (rule mean_flags_bounds)
  with v dept show ?thesis
    by simp
qed

lemma reorder_ratio_ex_merged:
  "reorder_ratio (ex_merged dow1 dow2) = [(''produce'', Float 1), (''dairy'', Float 0)]"
  by (simp add: ex_merged_rows reorder_ratio_def sort_values_desc_def mean_agg_def
      groupby_def mean_def unique_def)

theorem reorder_ratio_bounds_witness:
  "(\<exists>x. Float 1 = Float x \<and> 0 \<le> x \<and> x \<le> 1)
   \<and> (''produce'', Float 1) \<in> set (reorder_ratio (ex_merged 0 0))
   \<and> ''produce'' \<in> department ` set (ex_merged 0 0)"
proof -
  have flags: "\<forall>r \<in> set (ex_merged 0 0). reordered r = 0 \<or> reordered r = 1"
    by (simp add: ex_merged_rows)
  have mem: "(''produce'', Float 1) \<in> set (reorder_ratio (ex_merged 0 0))"
    by (simp add: reorder_ratio_ex_merged)
  from reorder_ratio_bounds [OF flags mem] mem show ?thesis
    by simp
qed

section \<open>The empty selection\<close>

lemma empty_subset_metrics:
  "total_orders [] = 0 \<and> avg_basket_size [] = NaN \<and> top_product [] = Inl ValueError
   \<and> top_products [] top_n = [] \<and> reorder_ratio [] = []"
  by (simp add: total_orders_def nunique_def unique_def avg_basket_size_def basket_sizes_def
      count_agg_def groupby_def mean_def top_product_def reordered_names_def boolean_index_def
      value_counts_def top_products_def head_def reorder_ratio_def sort_values_desc_def
      mean_agg_def)

lemma empty_selection_raises:
  "filter_data merged selected_dept hour_range = [] \<Longrightarrow>
     run_page merged top_n selected_dept hour_range = Inl ValueError"
  by (simp add: run_page_def empty_subset_metrics)

text \<open>
  Claim C1 asks that an empty selection neither raises nor shows NaN. The script does
  both: on the example table, department \<open>produce\<close> with hours \<open>[10, 14]\<close> selects no
  row; the average basket size is then NaN, \<open>idxmax\<close> raises \<open>ValueError\<close> at the top
  product, and the run ends there with that exception.
\<close>

theorem empty_selection_crashes_page:
  "filter_data (ex_merged 0 0) ''produce'' (10, 14) = []
   \<and> avg_basket_size (filter_data (ex_merged 0 0) ''produce'' (10, 14)) = NaN
   \<and> top_product (filter_data (ex_merged 0 0) ''produce'' (10, 14)) = Inl ValueError
   \<and> run_page (ex_merged 0 0) 10 ''produce'' (10, 14) = Inl ValueError"
proof -
  have e: "filter_data (ex_merged 0 0) ''produce'' (10, 14) = []"
    by (simp add: ex_merged_rows filter_data_eq_filter)
  show ?thesis
    by (simp add: e empty_subset_metrics empty_selection_raises)
qed

section \<open>The table behind the reorder ratio\<close>

text \<open>
  Claim C2 asks for the reorder ratio over the unfiltered merged table, whatever the
  selection. The script groups \<open>filtered_df\<close>: on the example table with department
  \<open>produce\<close> and hours \<open>[0, 23]\<close> the chart has the single entry \<open>produce\<close>, while
  the ratio over the merged table has the two entries \<open>produce\<close> and \<open>dairy\<close>.
\<close>

theorem reorder_ratio_of_filtered_subset:
  "run_page (ex_merged 0 0) 10 ''produce'' (0, 23)
     = Inr \<lparr> pg_total_orders = 2, pg_avg_basket_size = Float 1, pg_top_product = ''Bananas'',
             pg_top_products = [(''Bananas'', 2)],
             pg_reorder_ratio = [(''produce'', Float 1)] \<rparr>
   \<and> reorder_ratio (ex_merged 0 0) = [(''produce'', Float 1), (''dairy'', Float 0)]"
  by (simp add: ex_merged_rows run_page_def filter_data_eq_filter total_orders_def nunique_def
      unique_def avg_basket_size_def basket_sizes_def count_agg_def groupby_def mean_def
      top_product_def reordered_names_def boolean_index_def value_counts_def top_products_def
      head_def reorder_ratio_def sort_values_desc_def mean_agg_def)

text \<open>In general the chart never holds a department other than the selected one.\<close>

lemma reorder_ratio_filtered_keys:
  "fst ` set (reorder_ratio (filter_data merged selected_dept hour_range)) \<subseteq> {selected_dept}"
  by (auto simp add: reorder_ratio_def set_sort_values_desc set_mean_agg_groupby
      filter_data_eq_filter)

section \<open>The join engine\<close>

lemma merge_on_Nil: "merge_on [] right kl kr = []"
  by (simp add: merge_on_def)

lemma merge_on_Cons:
  "merge_on (l # left) right kl kr
     = map (Pair l) (filter (\<lambda>r. kr r = kl l) right) @ merge_on left right kl kr"
  by (simp add: merge_on_def)

lemma set_merge_on:
  "set (merge_on left right kl kr) = {(l, r). l \<in> set left \<and> r \<in> set right \<and> kr r = kl l}"
  by (auto simp add: merge_on_def)

lemma filter_unique_key:
  "distinct (map kr right) \<Longrightarrow> k \<in> kr ` set right \<Longrightarrow>
     length (filter (\<lambda>r. kr r = k) right) = 1"
proof (induction right)
  case Nil
  then show ?case by simp
next
  case (Cons r right)
  show ?case
  proof (cases "kr r = k")
    case True
    with Cons.prems(1) have "k \<notin> kr ` set right"
      by simp
    then have "\<forall>x \<in> set right. kr x \<noteq> k"
      by (auto simp add: image_iff)
    then have "filter (\<lambda>r. kr r = k) right = []"
      by (simp add: filter_empty_conv)
    with True show ?thesis by simp
  next
    case False
    with Cons show ?thesis by auto
  qed
qed

lemma length_merge_on_unique:
  "distinct (map kr right) \<Longrightarrow> \<forall>l \<in> set left. kl l \<in> kr ` set right \<Longrightarrow>
     length (merge_on left right kl kr) = length left"
  by (induction left) (simp_all add: merge_on_Nil merge_on_Cons filter_unique_key)

text \<open>
  Claim C5 says that full referential integrity alone makes the merged table as long
  as order\_products. \<open>merge\<close> checks no key: a key that occurs twice in a dimension
  table pairs its order\_products rows twice. Each of the three tables with a repeated
  key keeps referential integrity and turns the three rows of order\_products into
  five merged rows.
\<close>

theorem join_cardinality_repeated_key:
  "referential_integrity dup_products (ex_orders 0 0) ex_order_products ex_departments
   \<and> length (prepare_merged dup_products (ex_orders 0 0) ex_order_products ex_departments) = 5
   \<and> referential_integrity ex_products dup_orders ex_order_products ex_departments
   \<and> length (prepare_merged ex_products dup_orders ex_order_products ex_departments) = 5
   \<and> referential_integrity ex_products (ex_orders 0 0) ex_order_products dup_departments
   \<and> length (prepare_merged ex_products (ex_orders 0 0) ex_order_products dup_departments) = 5
   \<and> length ex_order_products = 3"
  by (simp add: referential_integrity_def prepare_merged_def merge_on_def dup_products_def
      dup_orders_def dup_departments_def ex_products_def ex_orders_def ex_order_products_def
      ex_departments_def)

text \<open>
  Claim C5, amended. On tables with full referential integrity in which \<open>product_id\<close>,
  \<open>order_id\<close> and \<open>department_id\<close> each occur at most once in products, orders and
  departments, the merged table has exactly as many rows as order\_products.
\<close>

theorem join_cardinality:
  assumes "distinct (map p_product_id products)"
    and "distinct (map o_order_id orders)"
    and "distinct (map d_department_id departments)"
    and "referential_integrity products orders order_products departments"
  shows "length (prepare_merged products orders order_products departments)
           = length order_products"
proof -
  let ?m1 = "merge_on order_products products op_product_id p_product_id"
  let ?m2 = "merge_on ?m1 orders (\<lambda>(opr, pr). op_order_id opr) o_order_id"
  let ?m3 = "merge_on ?m2 departments (\<lambda>((opr, pr), orw). p_department_id pr) d_department_id"
  from assms(4) have keys: "\<forall>x \<in> set order_products.
      op_product_id x \<in> p_product_id ` set products
      \<and> op_order_id x \<in> o_order_id ` set orders"
    and depts: "\<forall>x \<in> set order_products. \<forall>y \<in> set products.
      p_product_id y = op_product_id x
      \<longrightarrow> p_department_id y \<in> d_department_id ` set departments"
    by (simp_all add: referential_integrity_def)
  have l1: "length ?m1 = length order_products"
    using assms(1) keys by (simp add: length_merge_on_unique)
  have "\<forall>l \<in> set ?m1. (\<lambda>(opr, pr). op_order_id opr) l \<in> o_order_id ` set orders"
    using keys by (auto simp add: set_merge_on)
  with assms(2) have l2: "length ?m2 = length ?m1"
    by (rule length_merge_on_unique)
  have "\<forall>l \<in> set ?m2. (\<lambda>((opr, pr), orw). p_department_id pr) l
          \<in> d_department_id ` set departments"
    using depts by (auto simp add: set_merge_on)
  with assms(3) have l3: "length ?m3 = length ?m2"
    by (rule length_merge_on_unique)
  from l1 l2 l3 show ?thesis
    by (simp add: prepare_merged_def)
qed

theorem join_cardinality_witness:
  "distinct (map p_product_id ex_products)
   \<and> distinct (map o_order_id (ex_orders 0 0))
   \<and> distinct (map d_department_id ex_departments)
   \<and> referential_integrity ex_products (ex_orders 0 0) ex_order_products ex_departments
   \<and> length (prepare_merged ex_products (ex_orders 0 0) ex_order_products ex_departments)
       = length ex_order_products
   \<and> length ex_order_products = 3"
proof -
  have k: "distinct (map p_product_id ex_products)"
    "distinct (map o_order_id (ex_orders 0 0))"
    "distinct (map d_department_id ex_departments)"
    by (simp_all add: ex_products_def ex_orders_def ex_departments_def)
  have r: "referential_integrity ex_products (ex_orders 0 0) ex_order_products ex_departments"
    by (simp add: referential_integrity_def ex_products_def ex_orders_def
        ex_order_products_def ex_departments_def)
  from join_cardinality [OF k r] k r show ?thesis
    by (simp add: ex_order_products_def)
qed

subsection \<open>Order of the joins\<close>

lemma count_list_map_Pair:
  "count_list (map (Pair a) xs) (l, r) = (if a = l then count_list xs r else 0)"
  by (induction xs) auto

lemma count_list_filter:
  "count_list (filter P xs) x = (if P x then count_list xs x else 0)"
  by (induction xs) auto

lemma count_list_merge_on:
  "count_list (merge_on left right kl kr) (l, r)
     = (if kr r = kl l then count_list left l * count_list right r else 0)"
  by (induction left)
    (auto simp add: merge_on_Nil merge_on_Cons count_list_map_Pair count_list_filter)

lemma mset_map_rearranged:
  assumes gh: "\<And>y. g (h y) = y" and hg: "\<And>x. h (g x) = x"
    and cnt: "\<And>x. count_list ys (g x) = count_list xs x"
  shows "mset (map f ys) = mset (map (f \<circ> g) xs)"
proof -
  have "inj g"
    by (rule inj_on_inverseI [of _ h]) (simp add: hg)
  have "mset ys = mset (map g xs)"
  proof (rule multiset_eqI)
    fix y
    have "count (mset (map g xs)) (g (h y)) = count_list xs (h y)"
      unfolding count_mset by (rule count_list_map_conv [OF \<open>inj g\<close>])
    also have "\<dots> = count_list ys (g (h y))"
      by (simp add: cnt)
    finally show "count (mset ys) y = count (mset (map g xs)) y"
      by (simp add: gh count_mset)
  qed
  then have "image_mset f (mset ys) = image_mset f (mset (map g xs))"
    by simp
  then show ?thesis
    by (simp add: multiset.map_comp)
qed

text \<open>
  Claim C6. For all four input tables, every order of applying the three joins gives
  the same merged table up to row order (the same multiset of rows) as the order of
  \<open>prepare_merged\<close> (products, orders, departments): products, departments, orders;
  orders, products, departments; departments joined to products first, then that to
  order\_products, then orders; and orders and departments joined to their own sides
  first, with the product join last (in either order of the first two).
\<close>

theorem join_order_independent:
  "mset (merged_P_D_O products orders order_products departments)
     = mset (prepare_merged products orders order_products departments)
   \<and> mset (merged_O_P_D products orders order_products departments)
     = mset (prepare_merged products orders order_products departments)
   \<and> mset (merged_D_P_O products orders order_products departments)
     = mset (prepare_merged products orders order_products departments)
   \<and> mset (merged_O_D_P products orders order_products departments)
     = mset (prepare_merged products orders order_products departments)"
proof (intro conjI)
  let ?code = "merge_on
      (merge_on (merge_on order_products products op_product_id p_product_id)
         orders (\<lambda>(opr, pr). op_order_id opr) o_order_id)
      departments (\<lambda>((opr, pr), orw). p_department_id pr) d_department_id"
  let ?f = "\<lambda>(((opr, pr), orw), dr). mk_row opr pr orw dr"
  have code: "prepare_merged products orders order_products departments = map ?f ?code"
    by (simp add: prepare_merged_def)
  show "mset (merged_P_D_O products orders order_products departments)
     = mset (prepare_merged products orders order_products departments)"
  proof -
    let ?g = "\<lambda>(((opr, pr), orw), dr). (((opr, pr), dr), orw)"
    let ?h = "\<lambda>(((opr, pr), dr), orw). (((opr, pr), orw), dr)"
    let ?fb = "\<lambda>(((opr, pr), dr), orw). mk_row opr pr orw dr"
    let ?ys = "merge_on
      (merge_on (merge_on order_products products op_product_id p_product_id)
         departments (\<lambda>(opr, pr). p_department_id pr) d_department_id)
      orders (\<lambda>((opr, pr), dr). op_order_id opr) o_order_id"
    have "mset (map ?fb ?ys) = mset (map (?fb \<circ> ?g) ?code)"
      by (rule mset_map_rearranged [of ?g ?h]) (auto simp add: count_list_merge_on)
    moreover have "?fb \<circ> ?g = ?f"
      by (auto simp add: fun_eq_iff)
    ultimately show ?thesis
      by (simp add: merged_P_D_O_def code)
  qed
  show "mset (merged_O_P_D products orders order_products departments)
     = mset (prepare_merged products orders order_products departments)"
  proof -
    let ?g = "\<lambda>(((opr, pr), orw), dr). (((opr, orw), pr), dr)"
    let ?h = "\<lambda>(((opr, orw), pr), dr). (((opr, pr), orw), dr)"
    let ?fb = "\<lambda>(((opr, orw), pr), dr). mk_row opr pr orw dr"
    let ?ys = "merge_on
      (merge_on (merge_on order_products orders op_order_id o_order_id)
         products (\<lambda>(opr, orw). op_product_id opr) p_product_id)
      departments (\<lambda>((opr, orw), pr). p_department_id pr) d_department_id"
    have "mset (map ?fb ?ys) = mset (map (?fb \<circ> ?g) ?code)"
      by (rule mset_map_rearranged [of ?g ?h]) (auto simp add: count_list_merge_on)
    moreover have "?fb \<circ> ?g = ?f"
      by (auto simp add: fun_eq_iff)
    ultimately show ?thesis
      by (simp add: merged_O_P_D_def code)
  qed
  show "mset (merged_D_P_O products orders order_products departments)
     = mset (prepare_merged products orders order_products departments)"
  proof -
    let ?g = "\<lambda>(((opr, pr), orw), dr). ((opr, (pr, dr)), orw)"
    let ?h = "\<lambda>((opr, (pr, dr)), orw). (((opr, pr), orw), dr)"
    let ?fb = "\<lambda>((opr, (pr, dr)), orw). mk_row opr pr orw dr"
    let ?ys = "merge_on
      (merge_on order_products
         (merge_on products departments p_department_id d_department_id)
         op_product_id (\<lambda>(pr, dr). p_product_id pr))
      orders (\<lambda>(opr, (pr, dr)). op_order_id opr) o_order_id"
    have "mset (map ?fb ?ys) = mset (map (?fb \<circ> ?g) ?code)"
      by (rule mset_map_rearranged [of ?g ?h]) (auto simp add: count_list_merge_on)
    moreover have "?fb \<circ> ?g = ?f"
      by (auto simp add: fun_eq_iff)
    ultimately show ?thesis
      by (simp add: merged_D_P_O_def code)
  qed
  show "mset (merged_O_D_P products orders order_products departments)
     = mset (prepare_merged products orders order_products departments)"
  proof -
    let ?g = "\<lambda>(((opr, pr), orw), dr). ((opr, orw), (pr, dr))"
    let ?h = "\<lambda>((opr, orw), (pr, dr)). (((opr, pr), orw), dr)"
    let ?fb = "\<lambda>((opr, orw), (pr, dr)). mk_row opr pr orw dr"
    let ?ys = "merge_on
      (merge_on order_products orders op_order_id o_order_id)
      (merge_on products departments p_department_id d_department_id)
      (\<lambda>(opr, orw). op_product_id opr) (\<lambda>(pr, dr). p_product_id pr)"
    have "mset (map ?fb ?ys) = mset (map (?fb \<circ> ?g) ?code)"
      by (rule mset_map_rearranged [of ?g ?h]) (auto simp add: count_list_merge_on)
    moreover have "?fb \<circ> ?g = ?f"
      by (auto simp add: fun_eq_iff)
    ultimately show ?thesis
      by (simp add: merged_O_D_P_def code)
  qed
qed

end
